theory Spec2Isabelle
  imports Complex_Main "HOL-Library.Log_Nat" "HOL-Library.Sublist"
begin

section \<open>JavaScript numbers\<close>

text \<open>
  A JavaScript Number is an IEEE 754 binary64 value. A finite one is a rational, so
  \<open>jsnum\<close> is \<open>rat\<close> and every arithmetic operator rounds its exact result to the
  nearest binary64 value, ties to even (\<open>fl\<close>). NaN, the infinities, the sign of
  zero and the subnormal range are outside this model: the quantities of this
  program (fares, distances in kilometres, ratings, minutes) are far from them.
\<close>

type_synonym jsnum = rat

definition pow2 :: "int \<Rightarrow> rat" where
  "pow2 e = (if 0 \<le> e then 2 ^ nat e else 1 / 2 ^ nat (- e))"

text \<open>Round to the nearest integer, a tie going to the even neighbour.\<close>

definition round_half_even :: "rat \<Rightarrow> int" where
  "round_half_even x =
     (let f = \<lfloor>x\<rfloor>; d = x - of_int f
      in if d < 1 / 2 then f
         else if 1 / 2 < d then f + 1
         else if even f then f else f + 1)"

text \<open>The binary exponent of a non-zero rational: \<open>2 ^ e \<le> \<bar>x\<bar> < 2 ^ (e + 1)\<close>.\<close>

definition ilog2 :: "rat \<Rightarrow> int" where
  "ilog2 x =
     (let (p, q) = quotient_of \<bar>x\<bar>; e0 = bitlen p - bitlen q
      in if pow2 e0 \<le> \<bar>x\<bar> then e0 else e0 - 1)"

text \<open>Rounding to binary64: 53 significant bits.\<close>

definition fl :: "rat \<Rightarrow> jsnum" where
  "fl x =
     (if x = 0 then 0
      else let u = pow2 (ilog2 x - 52) in of_int (round_half_even (x / u)) * u)"

definition jadd :: "jsnum \<Rightarrow> jsnum \<Rightarrow> jsnum" where
  "jadd x y = fl (x + y)"

definition jsub :: "jsnum \<Rightarrow> jsnum \<Rightarrow> jsnum" where
  "jsub x y = fl (x - y)"

definition jmul :: "jsnum \<Rightarrow> jsnum \<Rightarrow> jsnum" where
  "jmul x y = fl (x * y)"

text \<open>Division by zero gives an infinity or NaN in JavaScript; every divisor of this
  program that the theorems below reach is non-zero.\<close>

definition jdiv :: "jsnum \<Rightarrow> jsnum \<Rightarrow> jsnum" where
  "jdiv x y = fl (x / y)"

text \<open>
  \<open>x.toFixed(2)\<close>: the decimal string of \<open>n / 100\<close> for the integer \<open>n\<close> that makes
  \<open>n / 100 - x\<close> closest to zero, the larger \<open>n\<close> on a tie, computed on the exact
  value of \<open>x\<close> (a negative \<open>x\<close> is negated first). The string is represented by
  \<open>n\<close>, its number of hundredths. \<open>parseFloat\<close> reads the string back as the nearest
  binary64 value.
\<close>

definition toFixed2 :: "jsnum \<Rightarrow> int" where
  "toFixed2 x = (if x < 0 then - \<lfloor>- x * 100 + 1 / 2\<rfloor> else \<lfloor>x * 100 + 1 / 2\<rfloor>)"

definition parseFloat2 :: "int \<Rightarrow> jsnum" where
  "parseFloat2 n = fl (of_int n / 100)"

definition round2 :: "jsnum \<Rightarrow> jsnum" where
  "round2 x = parseFloat2 (toFixed2 x)"

section \<open>Pricing (routes/orders.js, calculatePricing)\<close>

datatype priority = Standard | Express | Urgent

record pricing =
  baseFare :: jsnum
  distanceFare :: jsnum
  priorityFare :: jsnum
  totalAmount :: jsnum

definition calculatePricing :: "jsnum \<Rightarrow> priority \<Rightarrow> pricing" where
  "calculatePricing distance prio =
     (let baseFare = 5;
          perKmRate = 3 / 2;
          distanceFare = jmul distance perKmRate;
          priorityFare = (case prio of
                            Express \<Rightarrow> jmul baseFare (1 / 2)
                          | Urgent \<Rightarrow> jmul baseFare 1
                          | Standard \<Rightarrow> 0);
          totalAmount = jadd (jadd baseFare distanceFare) priorityFare
      in \<lparr> baseFare = round2 baseFare,
           distanceFare = round2 distanceFare,
           priorityFare = round2 priorityFare,
           totalAmount = round2 totalAmount \<rparr>)"

section \<open>Data model (models/User, models/Order)\<close>

text \<open>
  An ObjectId is a natural number (the code compares them through \<open>toString\<close>, that
  is by equality) and a Date is its number of milliseconds since the epoch.
\<close>

type_synonym objectId = nat
type_synonym date = int

datatype role = Customer | Courier | Admin

datatype vehicle = Bike | Motorcycle | Car | Van

datatype status = Pending | Assigned | PickedUp | InTransit | Delivered | Cancelled | Failed

record coordinates =
  lat :: jsnum
  lng :: jsnum

record courier_location = coordinates +
  lastUpdated :: date

record rating_summary =
  average :: jsnum
  count :: jsnum

text \<open>The fields of a user document that the routes read or write. \<open>isAvailable\<close> is
  undefined for a user who is not a courier, which \<open>!req.user.isAvailable\<close> treats
  as false.\<close>

record user =
  user_id :: objectId
  name :: string
  role :: role
  vehicle :: "vehicle option"
  isAvailable :: bool
  currentLocation :: "courier_location option"
  rating :: rating_summary

record trackingEvent =
  t_status :: status
  timestamp :: date
  location :: "coordinates option"
  t_notes :: "string option"

record times =
  pickup :: "date option"
  delivery :: "date option"

record order_rating =
  customerRating :: "int option"
  courierRating :: "int option"
  customerFeedback :: "string option"
  courierFeedback :: "string option"

text \<open>An order document. Of the pickup and delivery locations only the coordinates
  are kept: no route reads the address or the contact. The schema declares \<open>images\<close>
  as \<open>[{ type: String, timestamp: ..., description: String }]\<close>, which makes it an
  array of strings: \<open>type\<close> is the element type and the other keys are its options.\<close>

record order =
  order_id :: objectId
  orderNumber :: string
  customer :: objectId
  courier :: "objectId option"
  pickupLocation :: coordinates
  deliveryLocation :: coordinates
  status :: status
  priority :: priority
  pricing :: pricing
  estimatedTime :: times
  actualTime :: times
  tracking :: "trackingEvent list"
  orderRating :: order_rating
  images :: "string list"

text \<open>A response that is not a success: the HTTP status and the message.\<close>

datatype failure = Failure nat string

definition succeeded :: "failure + 'a \<Rightarrow> bool" where
  "succeeded r = (case r of Inl _ \<Rightarrow> False | Inr _ \<Rightarrow> True)"

type_synonym 'k orders = "'k \<rightharpoonup> order"

type_synonym users = "objectId \<rightharpoonup> user"

definition status_name :: "status \<Rightarrow> string" where
  "status_name s =
     (case s of
        Pending \<Rightarrow> ''pending'' | Assigned \<Rightarrow> ''assigned'' | PickedUp \<Rightarrow> ''picked_up''
      | InTransit \<Rightarrow> ''in_transit'' | Delivered \<Rightarrow> ''delivered''
      | Cancelled \<Rightarrow> ''cancelled'' | Failed \<Rightarrow> ''failed'')"

definition latlng :: "courier_location \<Rightarrow> coordinates" where
  "latlng l = \<lparr> lat = lat l, lng = lng l \<rparr>"

text \<open>\<open>orderSchema.methods.addTrackingUpdate\<close>; \<open>now\<close> is the value of \<open>new Date()\<close>.\<close>

definition addTrackingUpdate ::
  "date \<Rightarrow> status \<Rightarrow> coordinates option \<Rightarrow> string option \<Rightarrow> order \<Rightarrow> order" where
  "addTrackingUpdate now st loc nts ord =
     ord \<lparr> tracking := tracking ord @
              [\<lparr> t_status = st, timestamp = now, location = loc, t_notes = nts \<rparr>],
           status := st \<rparr>"

text \<open>
  A route that loads a document, runs its checks and saves: a failure returns before
  \<open>save\<close>, so the collection is written only on success. The key is the \<open>_id\<close> for
  \<open>findById\<close> and the order number for \<open>findOne\<close>.
\<close>

definition withOrder ::
  "(order \<Rightarrow> failure + order) \<Rightarrow> 'k \<Rightarrow> 'k orders \<Rightarrow> (failure + order) \<times> 'k orders" where
  "withOrder h k db =
     (case db k of
        None \<Rightarrow> (Inl (Failure 404 ''Order not found''), db)
      | Some ord \<Rightarrow>
          (case h ord of
             Inl e \<Rightarrow> (Inl e, db)
           | Inr ord' \<Rightarrow> (Inr ord', db(k \<mapsto> ord'))))"

section \<open>routes/orders.js\<close>

text \<open>The handlers below are the route bodies, entered once \<open>authenticateToken\<close> (and
  \<open>requireCourier\<close> where the route names it) has let the request through;
  \<open>u\<close> is \<open>req.user\<close>.\<close>

subsection \<open>PATCH /orders/:id/assign\<close>

definition assignOrder :: "date \<Rightarrow> user \<Rightarrow> order \<Rightarrow> failure + order" where
  "assignOrder now u ord =
     (if status ord \<noteq> Pending then
        Inl (Failure 400 ''Order is not available for assignment'')
      else if courier ord \<noteq> None then
        Inl (Failure 400 ''Order already assigned to another courier'')
      else if \<not> isAvailable u then
        Inl (Failure 400 ''You must be available to accept orders'')
      else
        Inr (addTrackingUpdate now Assigned (map_option latlng (currentLocation u))
               (Some (''Order assigned to courier '' @ name u))
               (ord \<lparr> courier := Some (user_id u), status := Assigned \<rparr>)))"

definition patchAssign ::
  "date \<Rightarrow> user \<Rightarrow> objectId \<Rightarrow> objectId orders \<Rightarrow> (failure + order) \<times> objectId orders" where
  "patchAssign now u = withOrder (assignOrder now u)"

subsection \<open>PATCH /orders/:id/status\<close>

definition validTransitions :: "status \<Rightarrow> status list option" where
  "validTransitions s =
     (case s of
        Assigned \<Rightarrow> Some [PickedUp, Cancelled]
      | PickedUp \<Rightarrow> Some [InTransit, Cancelled]
      | InTransit \<Rightarrow> Some [Delivered, Failed]
      | Pending \<Rightarrow> Some [Cancelled]
      | _ \<Rightarrow> None)"

definition statusAuthorized :: "user \<Rightarrow> status \<Rightarrow> order \<Rightarrow> bool" where
  "statusAuthorized u st ord \<longleftrightarrow>
     role u = Admin \<or> courier ord = Some (user_id u) \<or>
     (st = Cancelled \<and> customer ord = user_id u)"

definition updateStatus ::
  "date \<Rightarrow> user \<Rightarrow> status \<Rightarrow> string option \<Rightarrow> coordinates option \<Rightarrow> order \<Rightarrow> failure + order" where
  "updateStatus now u st nts loc ord =
     (if \<not> statusAuthorized u st ord then
        Inl (Failure 403 ''Not authorized to update this order'')
      else if (case validTransitions (status ord) of
                 None \<Rightarrow> False
               | Some ts \<Rightarrow> st \<notin> set ts) then
        Inl (Failure 400 (''Cannot change status from '' @ status_name (status ord) @
                          '' to '' @ status_name st))
      else
        Inr (addTrackingUpdate now st loc nts
               (if st = PickedUp then
                  ord \<lparr> actualTime := (actualTime ord) \<lparr> pickup := Some now \<rparr> \<rparr>
                else if st = Delivered then
                  ord \<lparr> actualTime := (actualTime ord) \<lparr> delivery := Some now \<rparr> \<rparr>
                else ord)))"

text \<open>The validator admits five of the seven statuses as the requested one.\<close>

definition patchStatus ::
  "date \<Rightarrow> user \<Rightarrow> status \<Rightarrow> string option \<Rightarrow> coordinates option \<Rightarrow> objectId \<Rightarrow>
   objectId orders \<Rightarrow> (failure + order) \<times> objectId orders" where
  "patchStatus now u st nts loc k db =
     (if st \<notin> set [PickedUp, InTransit, Delivered, Cancelled, Failed] then
        (Inl (Failure 400 ''Validation failed''), db)
      else withOrder (updateStatus now u st nts loc) k db)"

subsection \<open>PATCH /orders/:id/cancel\<close>

definition cancelAuthorized :: "user \<Rightarrow> order \<Rightarrow> bool" where
  "cancelAuthorized u ord \<longleftrightarrow>
     role u = Admin \<or> customer ord = user_id u \<or> courier ord = Some (user_id u)"

text \<open>\<open>reason || 'Order cancelled'\<close>: a missing or empty reason gives the default.\<close>

definition cancelNote :: "string option \<Rightarrow> string" where
  "cancelNote reason =
     (case reason of
        None \<Rightarrow> ''Order cancelled''
      | Some r \<Rightarrow> if r = [] then ''Order cancelled'' else r)"

definition cancelOrder :: "date \<Rightarrow> user \<Rightarrow> string option \<Rightarrow> order \<Rightarrow> failure + order" where
  "cancelOrder now u reason ord =
     (if \<not> cancelAuthorized u ord then
        Inl (Failure 403 ''Not authorized to cancel this order'')
      else if status ord \<notin> set [Pending, Assigned] then
        Inl (Failure 400 ''Order cannot be cancelled at this stage'')
      else
        Inr (addTrackingUpdate now Cancelled None (Some (cancelNote reason)) ord))"

definition patchCancel ::
  "date \<Rightarrow> user \<Rightarrow> string option \<Rightarrow> objectId \<Rightarrow> objectId orders \<Rightarrow>
   (failure + order) \<times> objectId orders" where
  "patchCancel now u reason = withOrder (cancelOrder now u reason)"

subsection \<open>PATCH /orders/:id/rate\<close>

text \<open>
  The score is \<open>req.body.rating\<close> as it was sent: a JSON number or a JSON string. The
  validator \<open>isInt({ min: 1, max: 5 })\<close> has no \<open>toInt\<close>, so it checks the text of the
  value (an optional sign and decimal digits, leading zeros allowed) and the route
  goes on with the value itself.
\<close>

datatype score = NumScore int | StrScore string

text \<open>The value of a decimal digit, from its character code ("0" is 48).\<close>

definition digitValue :: "char \<Rightarrow> nat option" where
  "digitValue c =
     (let code = (of_char c :: nat)
      in if 48 \<le> code \<and> code \<le> 57 then Some (code - 48) else None)"

fun digitsValue :: "nat \<Rightarrow> string \<Rightarrow> nat option" where
  "digitsValue acc [] = Some acc"
| "digitsValue acc (c # cs) =
     (case digitValue c of
        None \<Rightarrow> None
      | Some d \<Rightarrow> digitsValue (acc * 10 + d) cs)"

definition intOfString :: "string \<Rightarrow> int option" where
  "intOfString s =
     (case s of
        [] \<Rightarrow> None
      | c # cs \<Rightarrow>
          if c = CHR ''-'' then
            (if cs = [] then None else map_option (\<lambda>n. - int n) (digitsValue 0 cs))
          else if c = CHR ''+'' then
            (if cs = [] then None else map_option int (digitsValue 0 cs))
          else map_option int (digitsValue 0 s))"

text \<open>The integer a score stands for, if its text is one.\<close>

definition scoreValue :: "score \<Rightarrow> int option" where
  "scoreValue sc = (case sc of NumScore r \<Rightarrow> Some r | StrScore s \<Rightarrow> intOfString s)"

definition validScore :: "score \<Rightarrow> bool" where
  "validScore sc = (case scoreValue sc of None \<Rightarrow> False | Some v \<Rightarrow> 1 \<le> v \<and> v \<le> 5)"

text \<open>
  The update of the rated party's rolling rating, the same four lines in both
  branches of the route. \<open>(average * count) + rating\<close> adds when the score is a number.
  When it is a string, \<open>+\<close> appends it to the text of the product and the division
  reads the result back as a number: \<open>appendText\<close>, a parameter of the model (the text
  of a Number is the shortest decimal that reads back as it).
\<close>

definition applyRating ::
  "(jsnum \<Rightarrow> string \<Rightarrow> jsnum) \<Rightarrow> score \<Rightarrow> rating_summary \<Rightarrow> rating_summary" where
  "applyRating appendText sc rt =
     (let newCount = jadd (count rt) 1;
          newAverage =
            jdiv (case sc of
                    NumScore r \<Rightarrow> jadd (jmul (average rt) (count rt)) (of_int r)
                  | StrScore s \<Rightarrow> appendText (jmul (average rt) (count rt)) s)
                 newCount
      in \<lparr> average = round2 newAverage, count = newCount \<rparr>)"

text \<open>
  The route body on the loaded order. The score assigned to the order's rating is
  cast by the schema to the number it stands for. The rated user is loaded with
  \<open>User.findById\<close>; when there is none the property access throws and the \<open>catch\<close>
  answers 500 before anything is saved. The result is the saved order and the user
  collection after the route.
\<close>

definition rateOrder ::
  "(jsnum \<Rightarrow> string \<Rightarrow> jsnum) \<Rightarrow> user \<Rightarrow> score \<Rightarrow> string option \<Rightarrow> users \<Rightarrow> order \<Rightarrow>
   failure + order \<times> users" where
  "rateOrder appendText u sc feedback us ord =
     (if status ord \<noteq> Delivered then
        Inl (Failure 400 ''Can only rate completed orders'')
      else if customer ord = user_id u then
        (if customerRating (orderRating ord) \<noteq> None then
           Inl (Failure 400 ''You have already rated this order'')
         else
           let ord' = ord \<lparr> orderRating := (orderRating ord)
                              \<lparr> customerRating := scoreValue sc,
                                customerFeedback := feedback \<rparr> \<rparr>
           in (case courier ord of
                 None \<Rightarrow> Inr (ord', us)
               | Some c \<Rightarrow>
                   (case us c of
                      None \<Rightarrow> Inl (Failure 500 ''Server error submitting rating'')
                    | Some cu \<Rightarrow>
                        Inr (ord', us(c \<mapsto> cu \<lparr> rating :=
                                       applyRating appendText sc (rating cu) \<rparr>)))))
      else if courier ord = Some (user_id u) then
        (if courierRating (orderRating ord) \<noteq> None then
           Inl (Failure 400 ''You have already rated this order'')
         else
           (case us (customer ord) of
              None \<Rightarrow> Inl (Failure 500 ''Server error submitting rating'')
            | Some cu \<Rightarrow>
                Inr (ord \<lparr> orderRating := (orderRating ord)
                            \<lparr> courierRating := scoreValue sc,
                              courierFeedback := feedback \<rparr> \<rparr>,
                     us(customer ord \<mapsto> cu \<lparr> rating :=
                          applyRating appendText sc (rating cu) \<rparr>))))
      else
        Inl (Failure 403 ''Not authorized to rate this order''))"

text \<open>The whole route: validation, then the lookup, then the body.\<close>

definition patchRate ::
  "(jsnum \<Rightarrow> string \<Rightarrow> jsnum) \<Rightarrow> user \<Rightarrow> score \<Rightarrow> string option \<Rightarrow> objectId \<Rightarrow>
   objectId orders \<times> users \<Rightarrow> (failure + order) \<times> objectId orders \<times> users" where
  "patchRate appendText u sc feedback k w =
     (case w of (db, us) \<Rightarrow>
        if \<not> validScore sc then (Inl (Failure 400 ''Validation failed''), w)
        else
          (case db k of
             None \<Rightarrow> (Inl (Failure 404 ''Order not found''), w)
           | Some ord \<Rightarrow>
               (case rateOrder appendText u sc feedback us ord of
                  Inl e \<Rightarrow> (Inl e, w)
                | Inr (ord', us') \<Rightarrow> (Inr ord', db(k \<mapsto> ord'), us'))))"

section \<open>The tracking routes\<close>

text \<open>These handlers take the document that \<open>Order.findOne({ orderNumber })\<close>
  returned, if any, and give back the documents they save.\<close>

subsection \<open>PATCH /tracking/:orderNumber/location\<close>

text \<open>The route reads the clock twice: \<open>read1\<close> stamps the courier's position, which is
  saved first, and \<open>read2\<close> stamps the tracking event.\<close>

definition updateLocation ::
  "date \<Rightarrow> date \<Rightarrow> user \<Rightarrow> jsnum \<Rightarrow> jsnum \<Rightarrow> order \<Rightarrow> failure + user \<times> order" where
  "updateLocation read1 read2 u la lg ord =
     (if courier ord \<noteq> Some (user_id u) then
        Inl (Failure 403 ''Not authorized to update this order'')
      else
        Inr (u \<lparr> currentLocation := Some \<lparr> lat = la, lng = lg, lastUpdated = read1 \<rparr> \<rparr>,
             ord \<lparr> tracking := tracking ord @
                     [\<lparr> t_status = status ord, timestamp = read2,
                        location = Some \<lparr> lat = la, lng = lg \<rparr>,
                        t_notes = Some ''Location updated'' \<rparr>] \<rparr>))"

definition patchLocation ::
  "date \<Rightarrow> date \<Rightarrow> user \<Rightarrow> jsnum \<Rightarrow> jsnum \<Rightarrow> order option \<Rightarrow> failure + user \<times> order" where
  "patchLocation read1 read2 u la lg found =
     (if \<not> (- 90 \<le> la \<and> la \<le> 90 \<and> - 180 \<le> lg \<and> lg \<le> 180) then
        Inl (Failure 400 ''Validation failed'')
      else
        (case found of
           None \<Rightarrow> Inl (Failure 404 ''Order not found'')
         | Some ord \<Rightarrow> updateLocation read1 read2 u la lg ord))"

subsection \<open>POST /tracking/:orderNumber/update\<close>

definition addCustomUpdate ::
  "date \<Rightarrow> user \<Rightarrow> string \<Rightarrow> coordinates option \<Rightarrow> order \<Rightarrow> failure + order" where
  "addCustomUpdate now u nts loc ord =
     (if courier ord \<noteq> Some (user_id u) then
        Inl (Failure 403 ''Not authorized to update this order'')
      else
        Inr (ord \<lparr> tracking := tracking ord @
                     [\<lparr> t_status = status ord, timestamp = now,
                        location = (case loc of
                                      Some l \<Rightarrow> Some l
                                    | None \<Rightarrow> map_option latlng (currentLocation u)),
                        t_notes = Some nts \<rparr>] \<rparr>))"

definition postUpdate ::
  "date \<Rightarrow> user \<Rightarrow> string \<Rightarrow> coordinates option \<Rightarrow> order option \<Rightarrow> failure + order" where
  "postUpdate now u nts loc found =
     (if nts = [] then Inl (Failure 400 ''Validation failed'')
      else
        (case found of
           None \<Rightarrow> Inl (Failure 404 ''Order not found'')
         | Some ord \<Rightarrow> addCustomUpdate now u nts loc ord))"

subsection \<open>POST /tracking/:orderNumber/proof\<close>

text \<open>
  The route builds the object \<open>{ type: imageUrl, timestamp, description }\<close> and pushes
  it onto \<open>order.images\<close>. The array holds strings, the push casts its argument, and
  an object is not cast to a string: the push throws, the \<open>catch\<close> answers 500, and
  neither the tracking update that follows nor the save is reached.
\<close>

definition uploadProof ::
  "date \<Rightarrow> user \<Rightarrow> string \<Rightarrow> string option \<Rightarrow> order \<Rightarrow> failure + order" where
  "uploadProof now u imageUrl desc ord =
     (if courier ord \<noteq> Some (user_id u) then
        Inl (Failure 403 ''Not authorized to upload proof for this order'')
      else
        Inl (Failure 500 ''Server error uploading delivery proof''))"

definition postProof ::
  "date \<Rightarrow> user \<Rightarrow> string \<Rightarrow> string option \<Rightarrow> order option \<Rightarrow> failure + order" where
  "postProof now u imageUrl desc found =
     (case found of
        None \<Rightarrow> Inl (Failure 404 ''Order not found'')
      | Some ord \<Rightarrow> uploadProof now u imageUrl desc ord)"

subsection \<open>GET /tracking/:orderNumber/eta\<close>

text \<open>
  \<open>Math.sin\<close>, \<open>Math.cos\<close>, \<open>Math.sqrt\<close> and \<open>Math.atan2\<close> are approximations that
  the language leaves to the implementation, so they are parameters of the model.
  \<open>Math.PI\<close> is the binary64 value nearest to \<open>\<pi>\<close>.
\<close>

record mathlib =
  msin :: "jsnum \<Rightarrow> jsnum"
  mcos :: "jsnum \<Rightarrow> jsnum"
  msqrt :: "jsnum \<Rightarrow> jsnum"
  matan2 :: "jsnum \<Rightarrow> jsnum \<Rightarrow> jsnum"

definition PI :: jsnum where
  "PI = 884279719003555 / 281474976710656"

definition haversine :: "mathlib \<Rightarrow> jsnum \<Rightarrow> jsnum \<Rightarrow> jsnum \<Rightarrow> jsnum \<Rightarrow> jsnum" where
  "haversine M courierLat courierLng deliveryLat deliveryLng =
     (let R = 6371;
          dLat = jdiv (jmul (jsub deliveryLat courierLat) PI) 180;
          dLon = jdiv (jmul (jsub deliveryLng courierLng) PI) 180;
          a = jadd (jmul (msin M (jdiv dLat 2)) (msin M (jdiv dLat 2)))
                (jmul (jmul (jmul (mcos M (jdiv (jmul courierLat PI) 180))
                                  (mcos M (jdiv (jmul deliveryLat PI) 180)))
                            (msin M (jdiv dLon 2)))
                      (msin M (jdiv dLon 2)));
          c = jmul 2 (matan2 M (msqrt M a) (msqrt M (jsub 1 a)))
      in jmul R c)"

definition speedMap :: "vehicle \<Rightarrow> jsnum" where
  "speedMap v = (case v of Bike \<Rightarrow> 15 | Motorcycle \<Rightarrow> 25 | Car \<Rightarrow> 30 | Van \<Rightarrow> 25)"

text \<open>\<open>speedMap[order.courier.vehicle] || 25\<close>\<close>

definition estimatedSpeed :: "vehicle option \<Rightarrow> jsnum" where
  "estimatedSpeed v = (case v of None \<Rightarrow> 25 | Some x \<Rightarrow> speedMap x)"

record eta_estimate =
  eta :: date
  estimatedMinutes :: int
  distance :: jsnum
  eta_status :: status
  courierLocation :: courier_location

text \<open>The three answers of the route: the message "Courier location not available"
  with the stored delivery estimate; an estimate; and the estimate's shape with
  \<open>eta\<close>, \<open>estimatedMinutes\<close> and \<open>distance\<close> all null.\<close>

datatype eta_response =
  LocationNotAvailable "date option" status
| Estimate eta_estimate
| NullEstimate status

text \<open>
  \<open>populate('courier', ...)\<close> replaces the reference by the user document, or by
  null when there is no such user. \<open>currentLocation\<close> is a nested path of the user
  schema, so \<open>order.courier.currentLocation\<close> is an object even when no position was
  ever stored, and \<open>!order.courier.currentLocation\<close> is false: the route then computes
  with undefined coordinates, every number is NaN and is sent as null.
\<close>

definition getEta :: "mathlib \<Rightarrow> date \<Rightarrow> users \<Rightarrow> order option \<Rightarrow> failure + eta_response" where
  "getEta M now us found =
     (case found of
        None \<Rightarrow> Inl (Failure 404 ''Order not found'')
      | Some ord \<Rightarrow>
          (case Option.bind (courier ord) us of
             None \<Rightarrow> Inr (LocationNotAvailable (delivery (estimatedTime ord)) (status ord))
           | Some c \<Rightarrow>
               (case currentLocation c of
                  None \<Rightarrow> Inr (NullEstimate (status ord))
                | Some cl \<Rightarrow>
                    let d = haversine M (lat cl) (lng cl)
                              (lat (deliveryLocation ord)) (lng (deliveryLocation ord));
                        estimatedTimeHours = jdiv d (estimatedSpeed (vehicle c));
                        estimatedTimeMinutes = \<lceil>jmul estimatedTimeHours 60\<rceil>
                    in Inr (Estimate
                         \<lparr> eta = now + estimatedTimeMinutes * 60000,
                           estimatedMinutes = estimatedTimeMinutes,
                           distance = round2 d,
                           eta_status = status ord,
                           courierLocation = cl \<rparr>))))"

section \<open>Requests in flight and in sequence\<close>

subsection \<open>Two claim requests between their awaits\<close>

text \<open>
  The assign route suspends at \<open>await Order.findById\<close> and at \<open>await order.save()\<close>.
  What runs between the two is one uninterrupted block on the loaded copy, so a
  request is two events: the load, and the block together with its write and its
  answer. \<open>save old copy new\<close> is the stored document after the write, from the stored
  document before it, the copy as loaded and the copy as the route changed it.
  The events of two requests can come in any order that keeps each load before its
  continuation.
\<close>

datatype event = FindById nat | Continue nat

record flight =
  stored :: order
  loaded :: "nat \<rightharpoonup> order"
  replies :: "nat \<rightharpoonup> failure + order"

definition assign_event ::
  "(order \<Rightarrow> order \<Rightarrow> order \<Rightarrow> order) \<Rightarrow> (nat \<Rightarrow> user) \<Rightarrow> (nat \<Rightarrow> date) \<Rightarrow>
   flight \<Rightarrow> event \<Rightarrow> flight" where
  "assign_event save actor clock w e =
     (case e of
        FindById r \<Rightarrow> w \<lparr> loaded := (loaded w)(r \<mapsto> stored w) \<rparr>
      | Continue r \<Rightarrow>
          (case loaded w r of
             None \<Rightarrow> w
           | Some ord \<Rightarrow>
               (case assignOrder (clock r) (actor r) ord of
                  Inl err \<Rightarrow> w \<lparr> replies := (replies w)(r \<mapsto> Inl err) \<rparr>
                | Inr ord' \<Rightarrow>
                    w \<lparr> stored := save (stored w) ord ord',
                        replies := (replies w)(r \<mapsto> Inr ord') \<rparr>)))"

definition in_flight :: "order \<Rightarrow> flight" where
  "in_flight ord = \<lparr> stored = ord, loaded = Map.empty, replies = Map.empty \<rparr>"

definition schedule ::
  "(order \<Rightarrow> order \<Rightarrow> order \<Rightarrow> order) \<Rightarrow> (nat \<Rightarrow> user) \<Rightarrow> (nat \<Rightarrow> date) \<Rightarrow>
   event list \<Rightarrow> order \<Rightarrow> flight" where
  "schedule save actor clock es ord = foldl (assign_event save actor clock) (in_flight ord) es"

text \<open>
  \<open>order.save()\<close> after the claim writes what the route changed on the copy it
  loaded: it sets \<open>courier\<close> and \<open>status\<close> and pushes the events added to the copy onto
  the stored array.
\<close>

definition saveModified :: "order \<Rightarrow> order \<Rightarrow> order \<Rightarrow> order" where
  "saveModified old copy new =
     old \<lparr> courier := courier new, status := status new,
           tracking := tracking old @ drop (length (tracking copy)) (tracking new) \<rparr>"

text \<open>Claim attempts handled one after the other: each request loads and finishes
  before the next one loads.\<close>

definition serial :: "nat list \<Rightarrow> event list" where
  "serial rs = concat (map (\<lambda>r. [FindById r, Continue r]) rs)"

subsection \<open>Requests on one order, one after the other\<close>

datatype request =
  Assign user
| Transition user status "string option" "coordinates option"
| Cancel user "string option"
| LocationReport date user jsnum jsnum
| CourierNote user string "coordinates option"
| ProofUpload user string "string option"

text \<open>The stored document after a request: the saved one, or the old one when the
  route answered with a failure.\<close>

definition saved :: "order \<Rightarrow> failure + order \<Rightarrow> order" where
  "saved ord r = (case r of Inl _ \<Rightarrow> ord | Inr ord' \<Rightarrow> ord')"

text \<open>A request handled when the clock reads \<open>now\<close>. The location route reads the
  clock twice: the report carries the first reading, \<open>now\<close> is the second.\<close>

definition handle :: "date \<Rightarrow> request \<Rightarrow> order \<Rightarrow> order" where
  "handle now rq ord =
     (case rq of
        Assign u \<Rightarrow> saved ord (assignOrder now u ord)
      | Transition u st nts loc \<Rightarrow>
          (if st \<notin> set [PickedUp, InTransit, Delivered, Cancelled, Failed] then ord
           else saved ord (updateStatus now u st nts loc ord))
      | Cancel u reason \<Rightarrow> saved ord (cancelOrder now u reason ord)
      | LocationReport read1 u la lg \<Rightarrow>
          saved ord (map_sum id snd (patchLocation read1 now u la lg (Some ord)))
      | CourierNote u nts loc \<Rightarrow> saved ord (postUpdate now u nts loc (Some ord))
      | ProofUpload u imageUrl desc \<Rightarrow> saved ord (postProof now u imageUrl desc (Some ord)))"

fun run :: "(date \<times> request) list \<Rightarrow> order \<Rightarrow> order" where
  "run [] ord = ord"
| "run ((now, rq) # rs) ord = run rs (handle now rq ord)"

section \<open>What the routes are compared with\<close>

text \<open>The transition table of the specification (section 4.1), as pairs of a source
  and an allowed target.\<close>

definition transitionTable :: "(status \<times> status) list" where
  "transitionTable =
     [(Pending, Assigned), (Pending, Cancelled), (Assigned, PickedUp), (Assigned, Cancelled),
      (PickedUp, InTransit), (PickedUp, Cancelled), (InTransit, Delivered), (InTransit, Failed)]"

text \<open>The user whose profile a rating by \<open>u\<close> is folded into: the courier when the
  customer rates, the customer when the courier rates.\<close>

definition ratedParty :: "user \<Rightarrow> order \<Rightarrow> objectId option" where
  "ratedParty u ord = (if customer ord = user_id u then courier ord else Some (customer ord))"

section \<open>Sample documents\<close>

definition courierA :: user where
  "courierA =
     \<lparr> user_id = 1, name = ''Ana'', role = Courier, vehicle = Some Bike, isAvailable = True,
       currentLocation = Some \<lparr> lat = 40, lng = - 74, lastUpdated = 900 \<rparr>,
       rating = \<lparr> average = 5, count = 2 \<rparr> \<rparr>"

definition courierB :: user where
  "courierB =
     \<lparr> user_id = 2, name = ''Ben'', role = Courier, vehicle = Some Car, isAvailable = True,
       currentLocation = None, rating = \<lparr> average = 0, count = 0 \<rparr> \<rparr>"

definition courierOff :: user where
  "courierOff = courierB \<lparr> user_id := 4, isAvailable := False \<rparr>"

definition customerC :: user where
  "customerC =
     \<lparr> user_id = 3, name = ''Cy'', role = Customer, vehicle = None, isAvailable = False,
       currentLocation = None, rating = \<lparr> average = 4, count = 1 \<rparr> \<rparr>"

definition twoCouriers :: "nat \<Rightarrow> user" where
  "twoCouriers r = (if r = 0 then courierA else courierB)"

definition atTwoThousand :: "nat \<Rightarrow> date" where
  "atTwoThousand r = 2000"

definition sampleUsers :: users where
  "sampleUsers = [1 \<mapsto> courierA]"

definition pendingOrder :: order where
  "pendingOrder =
     \<lparr> order_id = 7, orderNumber = ''CR123456789'', customer = 3, courier = None,
       pickupLocation = \<lparr> lat = 40, lng = - 74 \<rparr>,
       deliveryLocation = \<lparr> lat = 41, lng = - 73 \<rparr>,
       status = Pending, priority = Standard,
       pricing = \<lparr> baseFare = 5, distanceFare = 12, priorityFare = 0, totalAmount = 17 \<rparr>,
       estimatedTime = \<lparr> pickup = Some 2800, delivery = Some 4600 \<rparr>,
       actualTime = \<lparr> pickup = None, delivery = None \<rparr>,
       tracking = [\<lparr> t_status = Pending, timestamp = 1000, location = None,
                     t_notes = Some ''Order created and waiting for courier assignment'' \<rparr>],
       orderRating = \<lparr> customerRating = None, courierRating = None,
                       customerFeedback = None, courierFeedback = None \<rparr>,
       images = [] \<rparr>"

text \<open>The same order further along, in the hands of courier 1.\<close>

definition orderOf :: "status \<Rightarrow> order" where
  "orderOf s = pendingOrder \<lparr> courier := Some 1, status := s \<rparr>"



definition firstRequests :: "(date \<times> request) list" where
  "firstRequests = [(2000, Assign courierA), (3000, LocationReport 2990 courierA 40 (- 74))]"

definition laterRequests :: "(date \<times> request) list" where
  "laterRequests =
     [(4000, Transition courierA PickedUp None None),
      (5000, CourierNote courierA ''Ringing the bell'' None),
      (6000, ProofUpload courierA ''https://img.example/1'' None)]"

definition earlyReport :: "(date \<times> request) list" where
  "earlyReport = [(500, LocationReport 490 courierA 40 (- 74))]"



text \<open>
  What appending a string of decimal digits to the text of a whole number gives, read
  back as a number: the stand-in for \<open>appendText\<close> on such inputs.
\<close>

definition appendDigits :: "jsnum \<Rightarrow> string \<Rightarrow> jsnum" where
  "appendDigits x s =
     (case digitsValue (nat \<lfloor>x\<rfloor>) s of None \<Rightarrow> 0 | Some n \<Rightarrow> fl (of_nat n))"

section \<open>Facts about the number model\<close>

lemma fl_0 [simp]: "fl 0 = 0"
  by (simp add: fl_def)

lemma round_half_even_of_int [simp]: "round_half_even (of_int m) = m"
  by (simp add: round_half_even_def)

lemma pow2_powi: "pow2 e = 2 powi e"
  by (simp add: pow2_def power_int_def field_simps)



text \<open>The exponent is the right one, and rounding moves a value by at most half a
  unit in the last place.\<close>

lemma round_half_even_error: "\<bar>rat_of_int (round_half_even y) - y\<bar> \<le> 1 / 2"
proof -
  have "rat_of_int \<lfloor>y\<rfloor> \<le> y" and "y < rat_of_int \<lfloor>y\<rfloor> + 1"
    by linarith+
  then show ?thesis
    by (auto simp: round_half_even_def Let_def abs_le_iff)
qed

lemma fl_error:
  assumes "x \<noteq> 0"
  shows "\<bar>fl x - x\<bar> \<le> pow2 (ilog2 x - 53)"
proof -
  let ?u = "pow2 (ilog2 x - 52)"
  have u: "0 < ?u" by (simp add: pow2_powi)
  have half: "pow2 (ilog2 x - 53) = ?u / 2"
    by (simp add: pow2_powi power_int_diff power_int_add)
  have "fl x - x = (rat_of_int (round_half_even (x / ?u)) - x / ?u) * ?u"
    using assms u by (simp add: fl_def Let_def algebra_simps)
  then have "\<bar>fl x - x\<bar> = \<bar>rat_of_int (round_half_even (x / ?u)) - x / ?u\<bar> * ?u"
    using u by (simp add: abs_mult)
  also have "\<dots> \<le> (1 / 2) * ?u"
    using round_half_even_error [of "x / ?u"] u by (intro mult_right_mono) simp_all
  finally show ?thesis by (simp add: half)
qed

lemma pow2_nonpos: "e \<le> 0 \<Longrightarrow> pow2 e = 1 / 2 ^ nat (- e)"
  by (cases "e = 0") (simp_all add: pow2_def)

lemma ilog2_of_int:
  assumes "0 < m"
  shows "ilog2 (of_int m) = bitlen m - 1"
proof -
  have q: "quotient_of \<bar>rat_of_int m\<bar> = (m, 1)"
    using assms by (simp add: quotient_of_int)
  have b1: "bitlen 1 = 1"
    by (simp add: bitlen_alt_def)
  have pos: "0 \<le> bitlen m - 1"
    using assms by (simp add: bitlen_alt_def)
  have "(2::int) ^ nat (bitlen m - 1) \<le> m"
    using bitlen_bounds [OF assms] by simp
  then have "rat_of_int (2 ^ nat (bitlen m - 1)) \<le> rat_of_int m"
    by (simp only: of_int_le_iff)
  then have le: "pow2 (bitlen m - 1) \<le> \<bar>rat_of_int m\<bar>"
    using assms pos by (simp add: pow2_def)
  show ?thesis
    using le by (simp add: ilog2_def q b1)
qed

text \<open>An integer below \<open>2 ^ 53\<close> is a binary64 value: rounding leaves it alone.\<close>

lemma fl_of_int:
  assumes "0 \<le> m" and "m < 2 ^ 53"
  shows "fl (of_int m) = of_int m"
proof (cases "m = 0")
  case True
  then show ?thesis by simp
next
  case False
  with assms have pos: "0 < m" by simp
  have "(2::int) ^ nat (bitlen m - 1) \<le> m"
    using bitlen_bounds [OF pos] by simp
  then have lt: "(2::int) ^ nat (bitlen m - 1) < 2 ^ 53"
    using assms by linarith
  have "nat (bitlen m - 1) < 53"
    by (rule power_less_imp_less_exp [OF _ lt]) simp
  then have e: "bitlen m - 1 - 52 \<le> 0"
    by linarith
  define k where "k = nat (- (bitlen m - 1 - 52))"
  have u: "pow2 (ilog2 (of_int m) - 52) = 1 / 2 ^ k"
    using pow2_nonpos [OF e] by (simp add: ilog2_of_int [OF pos] k_def)
  have "rat_of_int m / (1 / 2 ^ k) = rat_of_int (m * 2 ^ k)"
    by simp
  then have "round_half_even (rat_of_int m / (1 / 2 ^ k)) = m * 2 ^ k"
    by (simp only: round_half_even_of_int)
  then show ?thesis
    using False by (simp add: fl_def u Let_def)
qed

lemma jadd_count:
  assumes "n < 2 ^ 53 - 1"
  shows "jadd (of_nat n) 1 = of_nat n + 1"
proof -
  have "fl (rat_of_int (int n + 1)) = rat_of_int (int n + 1)"
    using assms by (intro fl_of_int) simp_all
  then show ?thesis by (simp add: jadd_def)
qed

lemma fl_1: "fl 1 = 1"
  using fl_of_int [of 1] by simp

lemma js_zero [simp]:
  "jsub x x = 0" "jmul 0 x = 0" "jmul x 0 = 0" "jdiv 0 x = 0" "jadd 0 0 = 0" "jsub 1 0 = 1"
  by (simp_all add: jsub_def jmul_def jdiv_def jadd_def fl_1)

lemma round2_consts: "round2 5 = 5" "round2 (5 / 2) = 5 / 2" "round2 0 = 0"
  by code_simp+

lemma jmul_consts: "jmul 5 (1 / 2) = 5 / 2" "jmul 5 1 = 5"
  by code_simp+

text \<open>On exact values \<open>toFixed(2)\<close> commutes with adding whole cents, so rounding a
  fare and then adding 5.00 and 2.50 differs from rounding their sum only through
  the binary64 rounding of the additions.\<close>

lemma toFixed2_add_cents:
  assumes "0 \<le> x" and "0 \<le> n"
  shows "toFixed2 (x + of_int n / 100) = toFixed2 x + n"
proof -
  have nn: "\<not> x + of_int n / 100 < 0"
    using assms by (simp add: add_nonneg_nonneg not_less)
  have e: "(x + of_int n / 100) * 100 + 1 / 2 = (x * 100 + 1 / 2) + of_int n"
    by (simp add: algebra_simps)
  have f: "\<lfloor>(x * 100 + 1 / 2) + of_int n\<rfloor> = \<lfloor>x * 100 + 1 / 2\<rfloor> + n"
    by (rule floor_add_int [symmetric])
  have "toFixed2 (x + of_int n / 100) = \<lfloor>(x + of_int n / 100) * 100 + 1 / 2\<rfloor>"
    using nn by (simp only: toFixed2_def if_False)
  also have "\<dots> = \<lfloor>x * 100 + 1 / 2\<rfloor> + n"
    by (simp only: e f)
  also have "\<dots> = toFixed2 x + n"
    using assms by (simp add: toFixed2_def)
  finally show ?thesis .
qed






section \<open>Facts about the routes\<close>

lemma succeeded_simps [simp]: "succeeded (Inr x)" "\<not> succeeded (Inl e)"
  by (simp_all add: succeeded_def)

lemma withOrder_found:
  "db k = Some ord \<Longrightarrow>
   withOrder h k db =
     (case h ord of Inl e \<Rightarrow> (Inl e, db) | Inr ord' \<Rightarrow> (Inr ord', db(k \<mapsto> ord')))"
  by (simp add: withOrder_def)

subsection \<open>Claiming an order\<close>

text \<open>A load changes nothing but the request's own copy.\<close>

lemma loads_first:
  "stored (foldl (assign_event save actor clock) w (map FindById rs)) = stored w
   \<and> replies (foldl (assign_event save actor clock) w (map FindById rs)) = replies w
   \<and> (\<forall>x. loaded (foldl (assign_event save actor clock) w (map FindById rs)) x =
          (if x \<in> set rs then Some (stored w) else loaded w x))"
proof (induction rs arbitrary: w rule: rev_induct)
  case Nil
  show ?case by simp
next
  case (snoc r rs)
  show ?case
    using snoc.IH [of w] by (simp add: assign_event_def)
qed

text \<open>A continuation looks at the request's own copy only: when the copies are pending
  and unassigned, every available courier is answered with success, whatever was
  written to the stored document in between.\<close>

lemma continue_succeeds:
  assumes "loaded w r = Some ord" and "status ord = Pending" and "courier ord = None"
    and "isAvailable (actor r)"
  shows "\<exists>a s. assign_event save actor clock w (Continue r) =
                 w \<lparr> stored := s, replies := (replies w)(r \<mapsto> Inr a) \<rparr>
    \<and> courier a = Some (user_id (actor r)) \<and> status a = Assigned"
proof -
  obtain ord' where o: "assignOrder (clock r) (actor r) ord = Inr ord'"
    and c: "courier ord' = Some (user_id (actor r))" and s: "status ord' = Assigned"
    using assms(2-4) by (simp add: assignOrder_def addTrackingUpdate_def)
  have "assign_event save actor clock w (Continue r) =
          w \<lparr> stored := save (stored w) ord ord', replies := (replies w)(r \<mapsto> Inr ord') \<rparr>"
    using assms(1) o by (simp add: assign_event_def)
  with c s show ?thesis by blast
qed

lemma continues_succeed:
  assumes "status ord = Pending" and "courier ord = None"
    and "\<forall>x \<in> set rs. isAvailable (actor x) \<and> loaded w x = Some ord"
  shows "loaded (foldl (assign_event save actor clock) w (map Continue rs)) = loaded w
    \<and> (\<forall>x \<in> set rs. \<exists>a.
          replies (foldl (assign_event save actor clock) w (map Continue rs)) x = Some (Inr a)
          \<and> courier a = Some (user_id (actor x)) \<and> status a = Assigned)"
  using assms(3)
proof (induction rs rule: rev_induct)
  case Nil
  show ?case by simp
next
  case (snoc r rs)
  let ?w = "foldl (assign_event save actor clock) w (map Continue rs)"
  from snoc.prems have rs: "\<forall>x \<in> set rs. isAvailable (actor x) \<and> loaded w x = Some ord"
    and r: "isAvailable (actor r)" "loaded w r = Some ord"
    by simp_all
  from snoc.IH [OF rs] have ld: "loaded ?w = loaded w"
    and ok: "\<forall>x \<in> set rs. \<exists>a. replies ?w x = Some (Inr a)
               \<and> courier a = Some (user_id (actor x)) \<and> status a = Assigned"
    by blast+
  have lr: "loaded ?w r = Some ord" using ld r(2) by simp
  from continue_succeeds [where actor = actor and r = r and save = save and clock = clock,
      OF lr assms(1,2) r(1)]
  obtain a s where step: "assign_event save actor clock ?w (Continue r) =
        ?w \<lparr> stored := s, replies := (replies ?w)(r \<mapsto> Inr a) \<rparr>"
    and a: "courier a = Some (user_id (actor r))" "status a = Assigned"
    by blast
  have fold: "foldl (assign_event save actor clock) w (map Continue (rs @ [r])) =
      ?w \<lparr> stored := s, replies := (replies ?w)(r \<mapsto> Inr a) \<rparr>"
    by (simp add: step)
  show ?case
    unfolding fold using ld ok a by auto
qed

lemma loaded_first_all_succeed:
  assumes "status ord = Pending" and "courier ord = None"
    and "\<forall>x \<in> set rs. isAvailable (actor x)"
  shows "\<forall>x \<in> set rs. \<exists>a.
      replies (schedule save actor clock (map FindById rs @ map Continue rs) ord) x
        = Some (Inr a)
      \<and> courier a = Some (user_id (actor x)) \<and> status a = Assigned"
proof -
  let ?w = "foldl (assign_event save actor clock) (in_flight ord) (map FindById rs)"
  have "\<forall>x \<in> set rs. isAvailable (actor x) \<and> loaded ?w x = Some ord"
    using assms(3) loads_first [of save actor clock "in_flight ord" rs]
    by (simp add: in_flight_def)
  from continues_succeed [OF assms(1,2) this, of save clock] show ?thesis
    by (simp add: schedule_def)
qed

text \<open>Handled one after the other, the first claim by an available courier succeeds and
  every later one is refused.\<close>

lemma serial_Cons: "serial (r # rs) = [FindById r, Continue r] @ serial rs"
  by (simp add: serial_def)

lemma late_claim_rejected:
  assumes "status (stored w) \<noteq> Pending"
  shows "foldl (assign_event save actor clock) w [FindById r, Continue r] =
           w \<lparr> loaded := (loaded w)(r \<mapsto> stored w),
               replies := (replies w)(r \<mapsto>
                 Inl (Failure 400 ''Order is not available for assignment'')) \<rparr>"
  using assms by (simp add: assign_event_def assignOrder_def)

lemma late_claims_rejected:
  assumes "status (stored w) \<noteq> Pending"
  shows "stored (foldl (assign_event save actor clock) w (serial rs)) = stored w
    \<and> (\<forall>x \<in> set rs.
          replies (foldl (assign_event save actor clock) w (serial rs)) x =
            Some (Inl (Failure 400 ''Order is not available for assignment'')))
    \<and> (\<forall>x. x \<notin> set rs \<longrightarrow>
          replies (foldl (assign_event save actor clock) w (serial rs)) x = replies w x)"
  using assms
proof (induction rs arbitrary: w rule: rev_induct)
  case Nil
  then show ?case by (simp add: serial_def)
next
  case (snoc r rs)
  let ?w = "foldl (assign_event save actor clock) w (serial rs)"
  have split: "serial (rs @ [r]) = serial rs @ [FindById r, Continue r]"
    by (simp add: serial_def)
  from snoc.IH [OF snoc.prems] have st: "stored ?w = stored w"
    and old: "\<forall>x \<in> set rs. replies ?w x =
                Some (Inl (Failure 400 ''Order is not available for assignment''))"
    and other: "\<forall>x. x \<notin> set rs \<longrightarrow> replies ?w x = replies w x"
    by blast+
  from st snoc.prems have np: "status (stored ?w) \<noteq> Pending" by simp
  show ?case
    unfolding split foldl_append late_claim_rejected [OF np]
    using st old other by auto
qed

lemma first_claim_accepted:
  assumes "status ord = Pending" and "courier ord = None" and "isAvailable (actor r)"
  shows "\<exists>a. foldl (assign_event saveModified actor clock) (in_flight ord)
               [FindById r, Continue r] =
             \<lparr> stored = a, loaded = [r \<mapsto> ord], replies = [r \<mapsto> Inr a] \<rparr>
    \<and> courier a = Some (user_id (actor r)) \<and> status a = Assigned"
  using assms
  by (cases ord)
    (simp add: assign_event_def assignOrder_def in_flight_def addTrackingUpdate_def
      saveModified_def)

lemma serial_claims_one_succeeds:
  assumes "status ord = Pending" and "courier ord = None"
    and "distinct (r # rs)" and "isAvailable (actor r)"
  shows "\<exists>a.
      replies (schedule saveModified actor clock (serial (r # rs)) ord) r = Some (Inr a)
    \<and> courier a = Some (user_id (actor r)) \<and> status a = Assigned
    \<and> stored (schedule saveModified actor clock (serial (r # rs)) ord) = a
    \<and> (\<forall>x \<in> set rs.
          replies (schedule saveModified actor clock (serial (r # rs)) ord) x =
            Some (Inl (Failure 400 ''Order is not available for assignment'')))"
proof -
  from first_claim_accepted [where actor = actor and r = r and clock = clock,
      OF assms(1,2,4)]
  obtain a where
    w1: "foldl (assign_event saveModified actor clock) (in_flight ord)
           [FindById r, Continue r] =
         \<lparr> stored = a, loaded = [r \<mapsto> ord], replies = [r \<mapsto> Inr a] \<rparr>"
    and ca: "courier a = Some (user_id (actor r))" and sa: "status a = Assigned"
    by blast
  let ?w1 = "\<lparr> stored = a, loaded = [r \<mapsto> ord], replies = [r \<mapsto> Inr a] \<rparr>"
  have np: "status (stored ?w1) \<noteq> Pending" using sa by simp
  have sched: "schedule saveModified actor clock (serial (r # rs)) ord =
      foldl (assign_event saveModified actor clock) ?w1 (serial rs)"
    by (simp only: schedule_def serial_Cons foldl_append w1)
  from assms(3) have "r \<notin> set rs" by simp
  with late_claims_rejected [OF np, of saveModified actor clock rs] ca sa show ?thesis
    unfolding sched by auto
qed

text \<open>One request with nothing in between: the route succeeds exactly when the order
  is pending with no courier, and saves nothing otherwise.\<close>

lemma claim_in_isolation:
  assumes "isAvailable u" and "db k = Some ord"
  shows "(succeeded (fst (patchAssign now u k db)) \<longleftrightarrow>
            status ord = Pending \<and> courier ord = None)
    \<and> (\<not> succeeded (fst (patchAssign now u k db)) \<longrightarrow> snd (patchAssign now u k db) = db)"
  using assms
  by (simp add: patchAssign_def withOrder_found assignOrder_def)

text \<open>
  Claim C1 fails on the code: couriers 1 and 2, both available, claim the pending
  sample order, and both requests load it before either continues. Both are answered
  with success, the first as courier 1 and the second as courier 2; the stored order
  ends with courier 2 and with the tracking events of both assignments.
\<close>

theorem overlapping_claims_both_succeed:
  "status pendingOrder = Pending \<and> courier pendingOrder = None
   \<and> isAvailable courierA \<and> isAvailable courierB \<and> user_id courierA \<noteq> user_id courierB
   \<and> map_option (map_sum id courier)
        (replies (schedule saveModified twoCouriers atTwoThousand
                   [FindById 0, FindById 1, Continue 0, Continue 1] pendingOrder) 0)
       = Some (Inr (Some 1))
   \<and> map_option (map_sum id courier)
        (replies (schedule saveModified twoCouriers atTwoThousand
                   [FindById 0, FindById 1, Continue 0, Continue 1] pendingOrder) 1)
       = Some (Inr (Some 2))
   \<and> courier (stored (schedule saveModified twoCouriers atTwoThousand
                 [FindById 0, FindById 1, Continue 0, Continue 1] pendingOrder)) = Some 2
   \<and> map t_notes (tracking (stored (schedule saveModified twoCouriers atTwoThousand
                 [FindById 0, FindById 1, Continue 0, Continue 1] pendingOrder))) =
       [Some ''Order created and waiting for courier assignment'',
        Some ''Order assigned to courier Ana'', Some ''Order assigned to courier Ben'']"
  by (simp add: schedule_def assign_event_def in_flight_def assignOrder_def addTrackingUpdate_def
      twoCouriers_def courierA_def courierB_def pendingOrder_def saveModified_def
      atTwoThousand_def)

text \<open>
  Claim C3 fails on the code: after courier 1 has claimed the sample order, the stored
  order is assigned to courier 1, so the precondition is false. The continuation of
  courier 2's request, which had loaded the order earlier, still succeeds: it checks
  its own copy, and its save replaces the stored courier by courier 2.
\<close>

theorem claim_succeeds_on_assigned_order:
  "status (stored (schedule saveModified twoCouriers atTwoThousand
             [FindById 0, FindById 1, Continue 0] pendingOrder)) = Assigned
   \<and> courier (stored (schedule saveModified twoCouriers atTwoThousand
             [FindById 0, FindById 1, Continue 0] pendingOrder)) = Some 1
   \<and> isAvailable (twoCouriers 1)
   \<and> map_option (map_sum id courier)
        (replies (assign_event saveModified twoCouriers atTwoThousand
                   (schedule saveModified twoCouriers atTwoThousand
                      [FindById 0, FindById 1, Continue 0] pendingOrder)
                   (Continue 1)) 1)
       = Some (Inr (Some 2))
   \<and> courier (stored (assign_event saveModified twoCouriers atTwoThousand
                   (schedule saveModified twoCouriers atTwoThousand
                      [FindById 0, FindById 1, Continue 0] pendingOrder)
                   (Continue 1))) = Some 2
   \<and> status (stored (assign_event saveModified twoCouriers atTwoThousand
                   (schedule saveModified twoCouriers atTwoThousand
                      [FindById 0, FindById 1, Continue 0] pendingOrder)
                   (Continue 1))) = Assigned"
  by (simp add: schedule_def assign_event_def in_flight_def assignOrder_def addTrackingUpdate_def
      twoCouriers_def courierA_def courierB_def pendingOrder_def saveModified_def
      atTwoThousand_def)

text \<open>
  Claim C9: a claim by a courier who is not available fails with 400 and leaves the
  collection unchanged whatever the order's state; on a pending, unassigned order the
  answer is "You must be available to accept orders".
\<close>

theorem unavailable_courier_cannot_claim:
  assumes "\<not> isAvailable u" and "db k = Some ord"
  shows "(status ord = Pending \<and> courier ord = None \<longrightarrow>
           patchAssign now u k db =
             (Inl (Failure 400 ''You must be available to accept orders''), db))
    \<and> (\<exists>msg. patchAssign now u k db = (Inl (Failure 400 msg), db))"
  using assms
  by (simp add: patchAssign_def withOrder_found assignOrder_def)

text \<open>Claim C9 at the sample order and a courier who is off duty.\<close>

theorem unavailable_courier_cannot_claim_witness:
  "\<not> isAvailable courierOff \<and> [7 \<mapsto> pendingOrder] 7 = Some pendingOrder
   \<and> status pendingOrder = Pending \<and> courier pendingOrder = None
   \<and> patchAssign 2000 courierOff 7 [7 \<mapsto> pendingOrder] =
       (Inl (Failure 400 ''You must be available to accept orders''), [7 \<mapsto> pendingOrder])"
  using unavailable_courier_cannot_claim [where u = courierOff
      and db = "[7 \<mapsto> pendingOrder]" and k = 7 and ord = pendingOrder and now = 2000]
  by (simp add: courierOff_def courierB_def pendingOrder_def)

subsection \<open>Status transitions and cancellation\<close>

text \<open>A source status with no entry in \<open>validTransitions\<close> is not checked at all: an
  authorized request moves a delivered, cancelled or failed order to any status the
  validator admits.\<close>

lemma terminal_source_not_checked:
  assumes "status ord \<in> {Delivered, Cancelled, Failed}"
    and "st \<in> {PickedUp, InTransit, Delivered, Cancelled, Failed}"
    and "statusAuthorized u st ord" and "db k = Some ord"
  shows "succeeded (fst (patchStatus now u st nts loc k db))
    \<and> map_option status (snd (patchStatus now u st nts loc k db) k) = Some st"
  using assms
  by (auto simp: patchStatus_def withOrder_found updateStatus_def validTransitions_def
      addTrackingUpdate_def)

text \<open>From the four other statuses a pair outside the table is refused with 400 and
  nothing is saved.\<close>

lemma live_source_checked:
  assumes "status ord \<in> {Pending, Assigned, PickedUp, InTransit}"
    and "(status ord, st) \<notin> set transitionTable"
    and "statusAuthorized u st ord" and "db k = Some ord"
  shows "\<exists>msg. patchStatus now u st nts loc k db = (Inl (Failure 400 msg), db)"
  using assms
  by (cases st)
    (auto simp: patchStatus_def withOrder_found updateStatus_def validTransitions_def
      transitionTable_def)

text \<open>
  Claim C2 fails on the code: delivered to cancelled is not in the transition table,
  yet the status route lets the customer of a delivered order set it to cancelled and
  saves that, with a new tracking event. The cancel route refuses the same request.
\<close>

theorem delivered_order_cancelled_through_status_route:
  "(Delivered, Cancelled) \<notin> set transitionTable
   \<and> patchStatus 2000 customerC Cancelled None None 7 [7 \<mapsto> orderOf Delivered] =
       (Inr (orderOf Delivered
              \<lparr> status := Cancelled,
                tracking := tracking (orderOf Delivered) @
                  [\<lparr> t_status = Cancelled, timestamp = 2000, location = None, t_notes = None \<rparr>] \<rparr>),
        [7 \<mapsto> orderOf Delivered
              \<lparr> status := Cancelled,
                tracking := tracking (orderOf Delivered) @
                  [\<lparr> t_status = Cancelled, timestamp = 2000, location = None, t_notes = None \<rparr>] \<rparr>])
   \<and> patchCancel 2000 customerC None 7 [7 \<mapsto> orderOf Delivered] =
       (Inl (Failure 400 ''Order cannot be cancelled at this stage''), [7 \<mapsto> orderOf Delivered])"
  by (simp add: transitionTable_def patchStatus_def patchCancel_def withOrder_def updateStatus_def
      cancelOrder_def cancelAuthorized_def statusAuthorized_def validTransitions_def
      addTrackingUpdate_def orderOf_def pendingOrder_def customerC_def)

text \<open>
  Claim C6, as the route has it: for an authorized actor the cancel route succeeds
  exactly when the order is pending or assigned; it then saves the order with status
  cancelled and one new tracking event. From every other status, picked_up included,
  it answers 400 "Order cannot be cancelled at this stage" and saves nothing.
\<close>

theorem cancel_only_before_pickup:
  assumes "cancelAuthorized u ord" and "db k = Some ord"
  shows "(succeeded (fst (patchCancel now u reason k db)) \<longleftrightarrow>
            status ord = Pending \<or> status ord = Assigned)
    \<and> (status ord = Pending \<or> status ord = Assigned \<longrightarrow>
         patchCancel now u reason k db =
           (Inr (ord \<lparr> status := Cancelled,
                       tracking := tracking ord @
                         [\<lparr> t_status = Cancelled, timestamp = now, location = None,
                            t_notes = Some (cancelNote reason) \<rparr>] \<rparr>),
            db(k \<mapsto> ord \<lparr> status := Cancelled,
                       tracking := tracking ord @
                         [\<lparr> t_status = Cancelled, timestamp = now, location = None,
                            t_notes = Some (cancelNote reason) \<rparr>] \<rparr>)))
    \<and> (status ord \<noteq> Pending \<and> status ord \<noteq> Assigned \<longrightarrow>
         patchCancel now u reason k db =
           (Inl (Failure 400 ''Order cannot be cancelled at this stage''), db))"
  using assms
  by (cases ord) (auto simp: patchCancel_def withOrder_found cancelOrder_def addTrackingUpdate_def)

text \<open>Claim C6 at the sample order, pending and then in transit.\<close>

theorem cancel_only_before_pickup_witness:
  "cancelAuthorized customerC pendingOrder \<and> [7 \<mapsto> pendingOrder] 7 = Some pendingOrder
   \<and> status pendingOrder = Pending
   \<and> succeeded (fst (patchCancel 2000 customerC None 7 [7 \<mapsto> pendingOrder]))
   \<and> cancelAuthorized customerC (orderOf InTransit)
   \<and> [7 \<mapsto> orderOf InTransit] 7 = Some (orderOf InTransit)
   \<and> status (orderOf InTransit) \<noteq> Pending \<and> status (orderOf InTransit) \<noteq> Assigned
   \<and> patchCancel 2000 customerC None 7 [7 \<mapsto> orderOf InTransit] =
       (Inl (Failure 400 ''Order cannot be cancelled at this stage''), [7 \<mapsto> orderOf InTransit])"
  using cancel_only_before_pickup [where u = customerC and db = "[7 \<mapsto> pendingOrder]" and k = 7
      and ord = pendingOrder and now = 2000 and reason = None]
    cancel_only_before_pickup [where u = customerC and db = "[7 \<mapsto> orderOf InTransit]" and k = 7
      and ord = "orderOf InTransit" and now = 2000 and reason = None]
  by (simp add: cancelAuthorized_def customerC_def pendingOrder_def orderOf_def)

text \<open>
  Claim C6 as stated fails: the table allows picked_up to cancelled, and the cancel
  route refuses the customer's request on a picked-up order.
\<close>

theorem picked_up_order_not_cancellable_counterexample:
  "(PickedUp, Cancelled) \<in> set transitionTable
   \<and> cancelAuthorized customerC (orderOf PickedUp)
   \<and> patchCancel 2000 customerC None 7 [7 \<mapsto> orderOf PickedUp] =
       (Inl (Failure 400 ''Order cannot be cancelled at this stage''), [7 \<mapsto> orderOf PickedUp])"
  by (simp add: transitionTable_def patchCancel_def withOrder_def cancelOrder_def
      cancelAuthorized_def orderOf_def pendingOrder_def customerC_def)

subsection \<open>Pricing\<close>

lemma pricing_example:
  "calculatePricing (fl (9 / 100)) Standard =
     \<lparr> baseFare = 5, distanceFare = fl (14 / 100), priorityFare = 0,
       totalAmount = fl (513 / 100) \<rparr>"
  by code_simp

lemma sum_example:
  "jadd (jadd 5 (fl (14 / 100))) 0 = fl (514 / 100)"
  "fl (513 / 100) \<noteq> fl (514 / 100)"
  "fl (513 / 100) \<noteq> 5 + fl (14 / 100)"
  by code_simp+

text \<open>
  Claim C4, as the code has it: the three stored components are baseFare 5.00,
  distanceFare round2(d * 1.50) and priorityFare 2.50 for express, 5.00 for urgent,
  0 for standard; totalAmount is the sum of the unrounded components, rounded once
  to two decimals.
\<close>

theorem pricing_rounds_the_sum:
  "calculatePricing d p =
     \<lparr> baseFare = 5,
       distanceFare = round2 (jmul d (3 / 2)),
       priorityFare = (case p of Standard \<Rightarrow> 0 | Express \<Rightarrow> 5 / 2 | Urgent \<Rightarrow> 5),
       totalAmount = round2 (jadd (jadd 5 (jmul d (3 / 2)))
                        (case p of Standard \<Rightarrow> 0 | Express \<Rightarrow> 5 / 2 | Urgent \<Rightarrow> 5)) \<rparr>"
  by (cases p) (simp_all add: calculatePricing_def Let_def round2_consts jmul_consts)

text \<open>
  Claim C4 as stated fails: for the distance 0.09 km and standard priority the stored
  components are 5, 0.14 and 0 and the stored total is 5.13, one cent less than their
  sum 5.14, whether the sum is taken in binary64 or exactly.
\<close>

theorem pricing_total_counterexample:
  "calculatePricing (fl (9 / 100)) Standard =
     \<lparr> baseFare = 5, distanceFare = fl (14 / 100), priorityFare = 0,
       totalAmount = fl (513 / 100) \<rparr>
   \<and> totalAmount (calculatePricing (fl (9 / 100)) Standard) \<noteq>
       jadd (jadd (baseFare (calculatePricing (fl (9 / 100)) Standard))
                  (distanceFare (calculatePricing (fl (9 / 100)) Standard)))
            (priorityFare (calculatePricing (fl (9 / 100)) Standard))
   \<and> totalAmount (calculatePricing (fl (9 / 100)) Standard) \<noteq>
       baseFare (calculatePricing (fl (9 / 100)) Standard)
       + distanceFare (calculatePricing (fl (9 / 100)) Standard)
       + priorityFare (calculatePricing (fl (9 / 100)) Standard)"
  using sum_example by (simp add: pricing_example)

subsection \<open>Rating\<close>

lemma applyRating_example:
  "applyRating appendDigits (NumScore 4) \<lparr> average = 5, count = 2 \<rparr> =
     \<lparr> average = fl (467 / 100), count = 3 \<rparr>"
  "applyRating appendDigits (StrScore ''4'') \<lparr> average = 5, count = 2 \<rparr> =
     \<lparr> average = fl (3467 / 100), count = 3 \<rparr>"
  "fl (467 / 100) \<noteq> (5 * 2 + 4) / (2 + 1)"
  "fl (467 / 100) \<noteq> jdiv (jadd (jmul 5 2) 4) (jadd 2 1)"
  "validScore (NumScore 4)" "validScore (StrScore ''4'')"
  "scoreValue (NumScore 4) = Some 4" "scoreValue (StrScore ''4'') = Some 4"
  by code_simp+

lemma rate_example:
  "patchRate appendDigits customerC (NumScore 4) None 7 ([7 \<mapsto> orderOf Delivered], sampleUsers) =
     (Inr (orderOf Delivered
            \<lparr> orderRating := \<lparr> customerRating = Some 4, courierRating = None,
                               customerFeedback = None, courierFeedback = None \<rparr> \<rparr>),
      [7 \<mapsto> orderOf Delivered
            \<lparr> orderRating := \<lparr> customerRating = Some 4, courierRating = None,
                               customerFeedback = None, courierFeedback = None \<rparr> \<rparr>],
      sampleUsers(1 \<mapsto> courierA \<lparr> rating := \<lparr> average = fl (467 / 100), count = 3 \<rparr> \<rparr>))"
  using applyRating_example(1,5,7)
  by (simp add: patchRate_def rateOrder_def orderOf_def pendingOrder_def customerC_def
      courierA_def sampleUsers_def)

text \<open>The same score sent as the string "4" passes the validator as well; the sum
  becomes the text "104" and the stored average 34.67.\<close>

lemma rate_with_text_score:
  "patchRate appendDigits customerC (StrScore ''4'') None 7
     ([7 \<mapsto> orderOf Delivered], sampleUsers) =
     (Inr (orderOf Delivered
            \<lparr> orderRating := \<lparr> customerRating = Some 4, courierRating = None,
                               customerFeedback = None, courierFeedback = None \<rparr> \<rparr>),
      [7 \<mapsto> orderOf Delivered
            \<lparr> orderRating := \<lparr> customerRating = Some 4, courierRating = None,
                               customerFeedback = None, courierFeedback = None \<rparr> \<rparr>],
      sampleUsers(1 \<mapsto> courierA \<lparr> rating := \<lparr> average = fl (3467 / 100), count = 3 \<rparr> \<rparr>))"
  using applyRating_example(2,6,8)
  by (simp add: patchRate_def rateOrder_def orderOf_def pendingOrder_def customerC_def
      courierA_def sampleUsers_def)

text \<open>
  Claim C5, as the code has it: after a successful rate call whose score r is sent as
  a number, the rated party's stored average is (average * count + r) / (count + 1)
  rounded to two decimals, and the stored count is count + 1 (exactly so for a count
  that is a whole number below 2^53 - 1).
\<close>

theorem rating_average_rounded:
  assumes "patchRate appendText u (NumScore r) feedback k (db, us) = (Inr ord', db', us')"
    and "db k = Some ord" and "ratedParty u ord = Some p" and "us p = Some pu"
  shows "status ord = Delivered \<and> 1 \<le> r \<and> r \<le> 5
    \<and> us' = us(p \<mapsto> pu \<lparr> rating :=
               \<lparr> average = round2 (jdiv (jadd (jmul (average (rating pu)) (count (rating pu)))
                                            (of_int r))
                                      (jadd (count (rating pu)) 1)),
                 count = jadd (count (rating pu)) 1 \<rparr> \<rparr>)
    \<and> (\<forall>n. n < 2 ^ 53 - 1 \<and> count (rating pu) = of_nat n \<longrightarrow>
          jadd (count (rating pu)) 1 = of_nat n + 1)"
proof -
  have cnt: "\<forall>n. n < 2 ^ 53 - 1 \<and> count (rating pu) = of_nat n \<longrightarrow>
          jadd (count (rating pu)) 1 = of_nat n + 1"
    using jadd_count by auto
  have valid: "1 \<le> r \<and> r \<le> 5"
    using assms(1) by (simp add: patchRate_def validScore_def scoreValue_def split: if_splits)
  then have body: "rateOrder appendText u (NumScore r) feedback us ord = Inr (ord', us')"
    using assms(1,2)
    by (auto simp: patchRate_def validScore_def scoreValue_def split: sum.splits)
  have "status ord = Delivered"
    using body by (simp add: rateOrder_def split: if_splits)
  moreover have "us' = us(p \<mapsto> pu \<lparr> rating :=
               \<lparr> average = round2 (jdiv (jadd (jmul (average (rating pu)) (count (rating pu)))
                                            (of_int r))
                                      (jadd (count (rating pu)) 1)),
                 count = jadd (count (rating pu)) 1 \<rparr> \<rparr>)"
    using body assms(3,4)
    by (auto simp: rateOrder_def ratedParty_def applyRating_def Let_def
        split: if_splits option.splits)
  ultimately show ?thesis using cnt valid by blast
qed

text \<open>Claim C5 at the sample customer rating courier 1 (average 5 over 2 ratings)
  with the number 4.\<close>

theorem rating_average_rounded_witness:
  "patchRate appendDigits customerC (NumScore 4) None 7 ([7 \<mapsto> orderOf Delivered], sampleUsers) =
     (Inr (orderOf Delivered
            \<lparr> orderRating := \<lparr> customerRating = Some 4, courierRating = None,
                               customerFeedback = None, courierFeedback = None \<rparr> \<rparr>),
      [7 \<mapsto> orderOf Delivered
            \<lparr> orderRating := \<lparr> customerRating = Some 4, courierRating = None,
                               customerFeedback = None, courierFeedback = None \<rparr> \<rparr>],
      sampleUsers(1 \<mapsto> courierA \<lparr> rating := \<lparr> average = fl (467 / 100), count = 3 \<rparr> \<rparr>))
   \<and> [7 \<mapsto> orderOf Delivered] 7 = Some (orderOf Delivered)
   \<and> ratedParty customerC (orderOf Delivered) = Some 1 \<and> sampleUsers 1 = Some courierA
   \<and> status (orderOf Delivered) = Delivered
   \<and> count (rating courierA) = of_nat 2
   \<and> jadd (count (rating courierA)) 1 = of_nat 2 + 1"
proof -
  have d: "[7 \<mapsto> orderOf Delivered] 7 = Some (orderOf Delivered)"
    by simp
  have p: "ratedParty customerC (orderOf Delivered) = Some 1"
    by (simp add: ratedParty_def orderOf_def pendingOrder_def customerC_def)
  have u: "sampleUsers 1 = Some courierA"
    by (simp add: sampleUsers_def)
  have c: "count (rating courierA) = of_nat 2"
    by (simp add: courierA_def)
  have n: "(2::nat) < 2 ^ 53 - 1"
    by simp
  from rating_average_rounded [OF rate_example d p u] c n
  have "status (orderOf Delivered) = Delivered"
    and "jadd (count (rating courierA)) 1 = of_nat 2 + 1"
    by blast+
  with rate_example d p u c show ?thesis by (intro conjI)
qed

text \<open>
  Claim C5 as stated fails: a courier with average 5 over 2 ratings who is rated with
  the number 4 gets the average 4.67, which is neither 14 / 3 nor its binary64 value.
\<close>

theorem rating_counterexample:
  "patchRate appendDigits customerC (NumScore 4) None 7
     ([7 \<mapsto> orderOf Delivered], [1 \<mapsto> courierA]) =
     (Inr (orderOf Delivered
            \<lparr> orderRating := \<lparr> customerRating = Some 4, courierRating = None,
                               customerFeedback = None, courierFeedback = None \<rparr> \<rparr>),
      [7 \<mapsto> orderOf Delivered
            \<lparr> orderRating := \<lparr> customerRating = Some 4, courierRating = None,
                               customerFeedback = None, courierFeedback = None \<rparr> \<rparr>],
      [1 \<mapsto> courierA \<lparr> rating := \<lparr> average = fl (467 / 100), count = 3 \<rparr> \<rparr>])
   \<and> average (rating courierA) = 5 \<and> count (rating courierA) = 2
   \<and> fl (467 / 100) \<noteq> (5 * 2 + 4) / (2 + 1)
   \<and> fl (467 / 100) \<noteq> jdiv (jadd (jmul 5 2) 4) (jadd 2 1)"
  using applyRating_example(3,4) rate_example
  by (simp add: sampleUsers_def courierA_def)

subsection \<open>Estimated time of arrival\<close>






text \<open>An assigned courier who never reported a position: the route answers with an
  estimate whose numbers are all null.\<close>

lemma eta_without_position:
  assumes "courier ord = Some cid" and "us cid = Some c" and "currentLocation c = None"
  shows "getEta M now us (Some ord) = Inr (NullEstimate (status ord))"
  using assms by (simp add: getEta_def)



subsection \<open>The tracking sequence\<close>

text \<open>Every request leaves the tracking sequence as it is or adds one event at its end,
  stamped with the time of the request.\<close>

lemma handle_appends:
  "tracking (handle now rq ord) = tracking ord
   \<or> (\<exists>ev. tracking (handle now rq ord) = tracking ord @ [ev] \<and> timestamp ev = now)"
  by (cases rq)
    (auto simp: handle_def saved_def assignOrder_def updateStatus_def cancelOrder_def
      patchLocation_def updateLocation_def postUpdate_def addCustomUpdate_def postProof_def
      uploadProof_def addTrackingUpdate_def)

lemma run_append: "run (rs1 @ rs2) ord = run rs2 (run rs1 ord)"
  by (induction rs1 arbitrary: ord) auto

lemma run_prefix: "prefix (tracking ord) (tracking (run rs ord))"
proof (induction rs arbitrary: ord)
  case Nil
  show ?case by simp
next
  case (Cons a rs)
  obtain now rq where a: "a = (now, rq)" by (cases a)
  have "prefix (tracking ord) (tracking (handle now rq ord))"
    using handle_appends [of now rq ord] by auto
  moreover have "prefix (tracking (handle now rq ord)) (tracking (run rs (handle now rq ord)))"
    by (rule Cons.IH)
  ultimately show ?case using a by (auto intro: prefix_order.trans)
qed

lemma run_sorted:
  assumes "sorted (map timestamp (tracking ord))"
    and "sorted (map fst rs)"
    and "\<forall>ev \<in> set (tracking ord). \<forall>t \<in> set (map fst rs). timestamp ev \<le> t"
  shows "sorted (map timestamp (tracking (run rs ord)))"
  using assms
proof (induction rs arbitrary: ord)
  case Nil
  then show ?case by simp
next
  case (Cons a rs)
  obtain now rq where a: "a = (now, rq)" by (cases a)
  let ?ord = "handle now rq ord"
  from Cons.prems(3) a have le_now: "\<forall>ev \<in> set (tracking ord). timestamp ev \<le> now"
    by simp
  from Cons.prems(2) a have later: "\<forall>t \<in> set (map fst rs). now \<le> t"
    and srt: "sorted (map fst rs)"
    by simp_all
  have s1: "sorted (map timestamp (tracking ?ord))"
    using handle_appends [of now rq ord] Cons.prems(1) le_now
    by (auto simp: sorted_append)
  have s2: "\<forall>ev \<in> set (tracking ?ord). \<forall>t \<in> set (map fst rs). timestamp ev \<le> t"
  proof (intro ballI)
    fix ev t assume ev: "ev \<in> set (tracking ?ord)" and t: "t \<in> set (map fst rs)"
    from ev handle_appends [of now rq ord] le_now have "timestamp ev \<le> now" by auto
    with later t show "timestamp ev \<le> t" by force
  qed
  from Cons.IH [OF s1 srt s2] a show ?case by simp
qed

lemma sample_run:
  "map timestamp (tracking (run firstRequests pendingOrder)) = [1000, 2000, 3000]"
  "map timestamp (tracking (run (firstRequests @ laterRequests) pendingOrder)) =
     [1000, 2000, 3000, 4000, 5000]"
  "map timestamp (tracking (run earlyReport (orderOf InTransit))) = [1000, 500]"
  by (simp_all add: firstRequests_def laterRequests_def earlyReport_def orderOf_def pendingOrder_def courierA_def
      handle_def saved_def assignOrder_def updateStatus_def statusAuthorized_def
      validTransitions_def patchLocation_def updateLocation_def postUpdate_def
      addCustomUpdate_def postProof_def uploadProof_def addTrackingUpdate_def)

text \<open>A proof upload by the order's courier pushes an object onto \<open>images\<close>, an array of
  strings: the push is refused, the route answers 500 and nothing is saved.\<close>

lemma proof_upload_saves_nothing: "handle now (ProofUpload u imageUrl desc) ord = ord"
  by (simp add: handle_def saved_def postProof_def uploadProof_def)

text \<open>
  Claim C8: over any sequence of requests on an order (claims, status transitions,
  cancellations, location reports, courier notes, proof uploads), handled one after
  the other, the tracking sequence at any earlier moment is a prefix of the tracking
  sequence at any later moment, so no event is changed, dropped or moved; and when
  the clock readings of the requests do not decrease and none is before an event
  already in the sequence, the sequence stays non-decreasing in timestamp.
\<close>

theorem tracking_append_only:
  "prefix (tracking ord) (tracking (run rs1 ord))
   \<and> prefix (tracking (run rs1 ord)) (tracking (run (rs1 @ rs2) ord))
   \<and> (sorted (map timestamp (tracking ord)) \<and> sorted (map fst (rs1 @ rs2))
      \<and> (\<forall>ev \<in> set (tracking ord). \<forall>t \<in> set (map fst (rs1 @ rs2)). timestamp ev \<le> t)
      \<longrightarrow> sorted (map timestamp (tracking (run (rs1 @ rs2) ord))))"
  using run_prefix [of ord rs1] run_prefix [of "run rs1 ord" rs2] run_sorted [of ord "rs1 @ rs2"]
  by (simp only: run_append) blast

text \<open>Claim C8 at the sample order: a claim, a location report, a pickup, a note and a
  proof upload, at the times 2000 to 6000. The proof upload adds no event.\<close>

theorem tracking_append_only_witness:
  "map timestamp (tracking pendingOrder) = [1000]
   \<and> map fst (firstRequests @ laterRequests) = [2000, 3000, 4000, 5000, 6000]
   \<and> map timestamp (tracking (run firstRequests pendingOrder)) = [1000, 2000, 3000]
   \<and> map timestamp (tracking (run (firstRequests @ laterRequests) pendingOrder)) =
       [1000, 2000, 3000, 4000, 5000]
   \<and> prefix (tracking pendingOrder) (tracking (run firstRequests pendingOrder))
   \<and> prefix (tracking (run firstRequests pendingOrder))
        (tracking (run (firstRequests @ laterRequests) pendingOrder))
   \<and> sorted (map timestamp (tracking (run (firstRequests @ laterRequests) pendingOrder)))"
proof -
  have t0: "map timestamp (tracking pendingOrder) = [1000]"
    by (simp add: pendingOrder_def)
  have ts: "map fst (firstRequests @ laterRequests) = [2000, 3000, 4000, 5000, 6000]"
    by (simp add: firstRequests_def laterRequests_def)
  have h1: "sorted (map timestamp (tracking pendingOrder))"
    by (simp add: t0)
  have h2: "sorted (map fst (firstRequests @ laterRequests))"
    unfolding ts by simp
  have h3: "\<forall>ev \<in> set (tracking pendingOrder).
              \<forall>t \<in> set (map fst (firstRequests @ laterRequests)). timestamp ev \<le> t"
    unfolding ts by (simp add: pendingOrder_def)
  from tracking_append_only [of pendingOrder firstRequests laterRequests] h1 h2 h3
  have "prefix (tracking pendingOrder) (tracking (run firstRequests pendingOrder))"
    and "prefix (tracking (run firstRequests pendingOrder))
        (tracking (run (firstRequests @ laterRequests) pendingOrder))"
    and "sorted (map timestamp (tracking (run (firstRequests @ laterRequests) pendingOrder)))"
    by blast+
  with t0 ts sample_run(1,2) show ?thesis by (intro conjI)
qed

text \<open>
  Claim C8 as the specification words it, with no condition on the clock: a location
  report handled when the server clock reads 500 is appended after the event
  stamped 1000, and the sequence is no longer non-decreasing in timestamp.
\<close>

theorem tracking_order_counterexample:
  "sorted (map timestamp (tracking (orderOf InTransit)))
   \<and> map timestamp (tracking (run earlyReport (orderOf InTransit))) = [1000, 500]
   \<and> \<not> sorted (map timestamp (tracking (run earlyReport (orderOf InTransit))))"
  by (simp add: sample_run(3)) (simp add: orderOf_def pendingOrder_def)

subsection \<open>Location reports\<close>

text \<open>
  Claim C10: a location report with valid coordinates by the order's courier saves
  the courier with only currentLocation replaced (stamped with the route's first
  clock reading) and the order with only one TrackingEvent appended (stamped with
  the second), carrying the order's current status; status, courier,
  customer, pricing, priority, both locations, estimated and actual times, ratings,
  images and identifiers of the order are unchanged.
\<close>

theorem location_report_frame:
  assumes "- 90 \<le> la \<and> la \<le> 90 \<and> - 180 \<le> lg \<and> lg \<le> 180"
    and "courier ord = Some (user_id u)"
  shows "\<exists>u' ord'. patchLocation read1 read2 u la lg (Some ord) = Inr (u', ord')
    \<and> u' = u \<lparr> currentLocation := Some \<lparr> lat = la, lng = lg, lastUpdated = read1 \<rparr> \<rparr>
    \<and> ord' = ord \<lparr> tracking := tracking ord @
                        [\<lparr> t_status = status ord, timestamp = read2,
                           location = Some \<lparr> lat = la, lng = lg \<rparr>,
                           t_notes = Some ''Location updated'' \<rparr>] \<rparr>
    \<and> status ord' = status ord \<and> courier ord' = courier ord \<and> customer ord' = customer ord
    \<and> pricing ord' = pricing ord \<and> priority ord' = priority ord
    \<and> pickupLocation ord' = pickupLocation ord
    \<and> deliveryLocation ord' = deliveryLocation ord
    \<and> estimatedTime ord' = estimatedTime ord \<and> actualTime ord' = actualTime ord
    \<and> orderRating ord' = orderRating ord \<and> images ord' = images ord
    \<and> orderNumber ord' = orderNumber ord \<and> order_id ord' = order_id ord
    \<and> user_id u' = user_id u \<and> name u' = name u \<and> role u' = role u
    \<and> vehicle u' = vehicle u \<and> isAvailable u' = isAvailable u \<and> rating u' = rating u"
proof -
  have "patchLocation read1 read2 u la lg (Some ord) =
          Inr (u \<lparr> currentLocation := Some \<lparr> lat = la, lng = lg, lastUpdated = read1 \<rparr> \<rparr>,
               ord \<lparr> tracking := tracking ord @
                        [\<lparr> t_status = status ord, timestamp = read2,
                           location = Some \<lparr> lat = la, lng = lg \<rparr>,
                           t_notes = Some ''Location updated'' \<rparr>] \<rparr>)"
    using assms by (simp add: patchLocation_def updateLocation_def)
  then show ?thesis by simp
qed

text \<open>Claim C10 at courier 1 reporting a position for the sample order in transit.\<close>

theorem location_report_frame_witness:
  "(- 90 \<le> (40::rat) \<and> (40::rat) \<le> 90 \<and> - 180 \<le> (- 74::rat) \<and> (- 74::rat) \<le> 180)
   \<and> courier (orderOf InTransit) = Some (user_id courierA)
   \<and> patchLocation 2990 3000 courierA 40 (- 74) (Some (orderOf InTransit)) =
       Inr (courierA \<lparr> currentLocation := Some \<lparr> lat = 40, lng = - 74, lastUpdated = 2990 \<rparr> \<rparr>,
            orderOf InTransit \<lparr> tracking := tracking (orderOf InTransit) @
                        [\<lparr> t_status = InTransit, timestamp = 3000,
                           location = Some \<lparr> lat = 40, lng = - 74 \<rparr>,
                           t_notes = Some ''Location updated'' \<rparr>] \<rparr>)"
proof -
  have v: "- 90 \<le> (40::rat) \<and> (40::rat) \<le> 90 \<and> - 180 \<le> (- 74::rat) \<and> (- 74::rat) \<le> 180"
    by simp
  have c: "courier (orderOf InTransit) = Some (user_id courierA)"
    by (simp add: orderOf_def courierA_def)
  have s: "status (orderOf InTransit) = InTransit"
    by (simp add: orderOf_def)
  from location_report_frame [OF v c, of 2990 3000] s v c show ?thesis
    by auto
qed

end
